theory Spec2Isabelle
  imports Complex_Main
begin

section \<open>The host engine: textures, render targets, shaders\<close>

text \<open>
  \<open>CubemapFilter\<close> (\<open>Code/Util/CubemapFilter.py\<close>) allocates textures, creates render
  targets on its parent stage and wires them. Every object it touches lives in the host
  engine. The engine is modelled as an explicit store: textures, render targets and loaded
  shaders are kept in lists and referred to by their position (a reference is an index,
  so two references denote the same object iff they are equal), and every call the module
  makes into the engine is appended to a log.
\<close>

type_synonym tex_ref = nat
type_synonym target_ref = nat
type_synonym shader_ref = nat
type_synonym stage_ref = nat

text \<open>The members of panda3d's \<open>Texture\<close> enumerations that the module can name.\<close>

datatype component_type = T_unsigned_byte | T_unsigned_short | T_float

datatype tex_format = F_rgba | F_rgba16 | F_r11_g11_b10

datatype filter_type =
  FT_nearest | FT_linear | FT_nearest_mipmap_nearest | FT_linear_mipmap_nearest
| FT_nearest_mipmap_linear | FT_linear_mipmap_linear | FT_default

record texture_obj =
  tex_name :: string
  cube_size :: int
  comp_type :: component_type
  comp_format :: tex_format
  minfilter :: filter_type
  magfilter :: filter_type

text \<open>An \<open>Image\<close> object wraps one engine texture, reached as \<open>img.texture\<close>.\<close>

record image =
  texture :: tex_ref

text \<open>
  The value bound by \<open>set_shader_input\<close>: a texture, a texture bound as an image with
  the five extra arguments the module passes (\<open>False, True, -1, mip, 0\<close>), or an integer.
\<close>

datatype shader_input =
  Tex_input tex_ref
| Image_input tex_ref bool bool int int int
| Int_input int

record render_target =
  target_name :: string
  owner :: stage_ref
  target_size :: "(int \<times> int) option"
  color_texture :: bool
  offscreen_buffer :: bool
  shader_inputs :: "string \<rightharpoonup> shader_input"
  shader :: "shader_ref option"

datatype api_call =
  Create_cube string int component_type tex_format
| Set_minfilter tex_ref filter_type
| Set_magfilter tex_ref filter_type
| Create_target stage_ref string
| Set_size target_ref int int
| Add_color_texture target_ref
| Prepare_offscreen_buffer target_ref
| Set_shader_input target_ref string shader_input
| Load_shader stage_ref string
| Set_shader target_ref shader_ref

record world =
  textures :: "texture_obj list"
  targets :: "render_target list"
  shaders :: "string list"
  calls :: "api_call list"

definition log_call :: "api_call \<Rightarrow> world \<Rightarrow> world" where
  "log_call c w = w\<lparr>calls := calls w @ [c]\<rparr>"

definition map_texture :: "tex_ref \<Rightarrow> (texture_obj \<Rightarrow> texture_obj) \<Rightarrow> world \<Rightarrow> world" where
  "map_texture t g w = w\<lparr>textures := (textures w)[t := g (textures w ! t)]\<rparr>"

definition map_target :: "target_ref \<Rightarrow> (render_target \<Rightarrow> render_target) \<Rightarrow> world \<Rightarrow> world" where
  "map_target t g w = w\<lparr>targets := (targets w)[t := g (targets w ! t)]\<rparr>"

text \<open>
  Modelled from the spec: \<open>Image.create_cube\<close> (\<open>Code/Util/Image.py\<close> is not part of the
  sources at hand). The spec calls it the external image factory that allocates a
  cube-mapped texture of a given resolution and format; the new texture is a fresh object
  whose filter modes are the engine's defaults.
\<close>

definition create_cube ::
  "string \<Rightarrow> int \<Rightarrow> component_type \<Rightarrow> tex_format \<Rightarrow> world \<Rightarrow> image \<times> world" where
  "create_cube n s ct fmt w =
     (\<lparr>texture = length (textures w)\<rparr>,
      log_call (Create_cube n s ct fmt)
        (w\<lparr>textures := textures w @
           [\<lparr>tex_name = n, cube_size = s, comp_type = ct, comp_format = fmt,
             minfilter = FT_default, magfilter = FT_default\<rparr>]\<rparr>))"

text \<open>
  Modelled from the spec: the texture filtering modes of the host engine
  (\<open>Texture.set_minfilter\<close>, \<open>Texture.set_magfilter\<close>), each a plain setter.
\<close>

definition set_minfilter :: "tex_ref \<Rightarrow> filter_type \<Rightarrow> world \<Rightarrow> world" where
  "set_minfilter t ft w = log_call (Set_minfilter t ft) (map_texture t (\<lambda>x. x\<lparr>minfilter := ft\<rparr>) w)"

definition set_magfilter :: "tex_ref \<Rightarrow> filter_type \<Rightarrow> world \<Rightarrow> world" where
  "set_magfilter t ft w = log_call (Set_magfilter t ft) (map_texture t (\<lambda>x. x\<lparr>magfilter := ft\<rparr>) w)"

text \<open>
  Modelled from the spec: the render-target primitives of the rendering stage
  (\<open>RenderStage._create_target\<close>, \<open>RenderTarget.set_size\<close>, \<open>add_color_texture\<close>,
  \<open>prepare_offscreen_buffer\<close>, \<open>set_shader_input\<close>, \<open>set_shader\<close>) and its shader loader
  (\<open>RenderStage._load_shader\<close>), none of which is part of the sources at hand. Creating a
  target or loading a shader yields a fresh object; the other calls record their arguments
  on the target they are called on.
\<close>

definition create_target :: "stage_ref \<Rightarrow> string \<Rightarrow> world \<Rightarrow> target_ref \<times> world" where
  "create_target st n w =
     (length (targets w),
      log_call (Create_target st n)
        (w\<lparr>targets := targets w @
           [\<lparr>target_name = n, owner = st, target_size = None, color_texture = False,
             offscreen_buffer = False, shader_inputs = Map.empty, shader = None\<rparr>]\<rparr>))"

definition set_size :: "target_ref \<Rightarrow> int \<Rightarrow> int \<Rightarrow> world \<Rightarrow> world" where
  "set_size t wd ht w =
     log_call (Set_size t wd ht) (map_target t (\<lambda>x. x\<lparr>target_size := Some (wd, ht)\<rparr>) w)"

definition add_color_texture :: "target_ref \<Rightarrow> world \<Rightarrow> world" where
  "add_color_texture t w =
     log_call (Add_color_texture t) (map_target t (\<lambda>x. x\<lparr>color_texture := True\<rparr>) w)"

definition prepare_offscreen_buffer :: "target_ref \<Rightarrow> world \<Rightarrow> world" where
  "prepare_offscreen_buffer t w =
     log_call (Prepare_offscreen_buffer t) (map_target t (\<lambda>x. x\<lparr>offscreen_buffer := True\<rparr>) w)"

definition set_shader_input :: "target_ref \<Rightarrow> string \<Rightarrow> shader_input \<Rightarrow> world \<Rightarrow> world" where
  "set_shader_input t k v w =
     log_call (Set_shader_input t k v)
       (map_target t (\<lambda>x. x\<lparr>shader_inputs := (shader_inputs x)(k \<mapsto> v)\<rparr>) w)"

definition load_shader :: "stage_ref \<Rightarrow> string \<Rightarrow> world \<Rightarrow> shader_ref \<times> world" where
  "load_shader st path w =
     (length (shaders w), log_call (Load_shader st path) (w\<lparr>shaders := shaders w @ [path]\<rparr>))"

definition set_shader :: "target_ref \<Rightarrow> shader_ref \<Rightarrow> world \<Rightarrow> world" where
  "set_shader t s w = log_call (Set_shader t s) (map_target t (\<lambda>x. x\<lparr>shader := Some s\<rparr>) w)"

section \<open>Python's \<open>str\<close> on integers\<close>

definition digit_char :: "nat \<Rightarrow> char" where
  "digit_char d = char_of (48 + d)"

fun str_nat :: "nat \<Rightarrow> string" where
  "str_nat n = (if n < 10 then [digit_char n] else str_nat (n div 10) @ [digit_char (n mod 10)])"

definition str :: "int \<Rightarrow> string" where
  "str i = (if i < 0 then CHR ''-'' # str_nat (nat (- i)) else str_nat (nat i))"

section \<open>The cubemap filter\<close>

text \<open>
  The attributes of a \<open>CubemapFilter\<close> object. \<open>_stage\<close>, \<open>_name\<close>, \<open>_size\<close> and the four
  maps exist once the constructor has returned; the four target attributes are only
  assigned by \<open>create\<close>, so they are optional (\<open>None\<close>: the attribute does not exist yet).
\<close>

record cubemap_filter =
  stage_attr :: stage_ref
  name_attr :: string
  size_attr :: int
  prefilter_map :: image
  diffuse_map :: image
  spec_pref_map :: image
  specular_map :: image
  targets_spec :: "target_ref list option"
  targets_spec_filter :: "target_ref list option"
  diffuse_target :: "target_ref option"
  diff_filter_target :: "target_ref option"

definition DIFFUSE_CUBEMAP_SIZE :: int where
  "DIFFUSE_CUBEMAP_SIZE = 10"

definition PREFILTER_CUBEMAP_SIZE :: int where
  "PREFILTER_CUBEMAP_SIZE = 32"

text \<open>
  \<open>_make_maps\<close> runs inside the constructor, when only \<open>_stage\<close>, \<open>_name\<close> and \<open>_size\<close> are
  set; it reads the latter two and assigns the four maps, which it returns here in the
  order of assignment (prefilter, diffuse, specular-prefilter, specular).
\<close>

definition make_maps ::
  "string \<Rightarrow> int \<Rightarrow> world \<Rightarrow> (image \<times> image \<times> image \<times> image) \<times> world" where
  "make_maps name sz w0 =
     (let (prefilter, w1) =
            create_cube (name @ ''IBLPrefDiff'') PREFILTER_CUBEMAP_SIZE T_float F_r11_g11_b10 w0;
          (diffuse, w2) =
            create_cube (name @ ''IBLDiff'') DIFFUSE_CUBEMAP_SIZE T_float F_r11_g11_b10 w1;
          (spec_pref, w3) = create_cube (name @ ''IBLPrefSpec'') sz T_float F_r11_g11_b10 w2;
          (specular, w4) = create_cube (name @ ''IBLSpec'') sz T_float F_r11_g11_b10 w3;
          w5 = fold (\<lambda>tex w. set_magfilter (texture tex) FT_linear
                               (set_minfilter (texture tex) FT_linear w))
                 [diffuse, specular, prefilter] w4;
          w6 = set_minfilter (texture spec_pref) FT_linear_mipmap_linear w5;
          w7 = set_minfilter (texture specular) FT_linear_mipmap_linear w6
      in ((prefilter, diffuse, spec_pref, specular), w7))"

definition init :: "stage_ref \<Rightarrow> string \<Rightarrow> int \<Rightarrow> world \<Rightarrow> cubemap_filter \<times> world" where
  "init parent_stage name sz w =
     (let ((prefilter, diffuse, spec_pref, specular), w') = make_maps name sz w
      in (\<lparr>stage_attr = parent_stage, name_attr = name, size_attr = sz,
            prefilter_map = prefilter, diffuse_map = diffuse,
            spec_pref_map = spec_pref, specular_map = specular,
            targets_spec = None, targets_spec_filter = None,
            diffuse_target = None, diff_filter_target = None\<rparr>, w'))"

definition get_specular_cubemap :: "cubemap_filter \<Rightarrow> tex_ref" where
  "get_specular_cubemap self = texture (specular_map self)"

definition get_diffuse_cubemap :: "cubemap_filter \<Rightarrow> tex_ref" where
  "get_diffuse_cubemap self = texture (diffuse_map self)"

definition get_target_cubemap :: "cubemap_filter \<Rightarrow> tex_ref" where
  "get_target_cubemap self = texture (specular_map self)"

definition get_size :: "cubemap_filter \<Rightarrow> int" where
  "get_size self = size_attr self"

text \<open>\<open>list.append\<close> on a list-valued attribute.\<close>

definition append_attr :: "'a \<Rightarrow> 'a list option \<Rightarrow> 'a list option" where
  "append_attr x = map_option (\<lambda>xs. xs @ [x])"

text \<open>
  The \<open>while mipsize >= 2\<close> loop of \<open>_make_specular_targets\<close>, entered with the loop
  variables \<open>mip\<close> and \<open>mipsize\<close>. \<open>mipsize // 2\<close> is floor division on Python's unbounded
  integers, which is \<open>div\<close> on \<open>int\<close>.
\<close>

function spec_loop :: "cubemap_filter \<Rightarrow> int \<Rightarrow> int \<Rightarrow> world \<Rightarrow> cubemap_filter \<times> world" where
  "spec_loop self mip mipsize w0 =
     (if mipsize \<ge> 2 then
        (let mipsize' = mipsize div 2;
             (target, w1) =
               create_target (stage_attr self) (name_attr self @ ''SpecIBL-'' @ str mipsize') w0;
             w2 = set_size target (mipsize' * 6) mipsize' w1;
             w3 = prepare_offscreen_buffer target w2;
             w4 = (if mip = 0
                   then set_shader_input target ''SourceTex'' (Tex_input (texture (specular_map self))) w3
                   else set_shader_input target ''SourceTex'' (Tex_input (texture (spec_pref_map self))) w3);
             w5 = set_shader_input target ''DestMipmap''
                    (Image_input (texture (spec_pref_map self)) False True (- 1) (mip + 1) 0) w4;
             w6 = set_shader_input target ''currentMip'' (Int_input mip) w5;
             mip' = mip + 1;
             (target_filter, w7) =
               create_target (stage_attr self) (name_attr self @ ''SpecIBLFilter-'' @ str mipsize') w6;
             w8 = set_size target_filter (mipsize' * 6) mipsize' w7;
             w9 = prepare_offscreen_buffer target_filter w8;
             w10 = set_shader_input target_filter ''currentMip'' (Int_input mip') w9;
             w11 = set_shader_input target_filter ''SourceTex''
                     (Tex_input (texture (spec_pref_map self))) w10;
             w12 = set_shader_input target_filter ''DestMipmap''
                     (Image_input (texture (specular_map self)) False True (- 1) mip' 0) w11;
             self' = self\<lparr>targets_spec := append_attr target (targets_spec self)\<rparr>;
             self'' = self'\<lparr>targets_spec_filter := append_attr target_filter (targets_spec_filter self')\<rparr>
         in spec_loop self'' mip' mipsize' w12)
      else (self, w0))"
  by pat_completeness auto
termination
  by (relation "measure (\<lambda>(self, mip, mipsize, w). nat mipsize)") auto

definition make_specular_targets :: "cubemap_filter \<Rightarrow> world \<Rightarrow> cubemap_filter \<times> world" where
  "make_specular_targets self w =
     spec_loop (self\<lparr>targets_spec := Some [], targets_spec_filter := Some []\<rparr>) 0 (size_attr self) w"

definition make_diffuse_target :: "cubemap_filter \<Rightarrow> world \<Rightarrow> cubemap_filter \<times> world" where
  "make_diffuse_target self w0 =
     (let (dt, w1) = create_target (stage_attr self) (name_attr self @ ''DiffuseIBL'') w0;
          self' = self\<lparr>diffuse_target := Some dt\<rparr>;
          w2 = set_size dt (PREFILTER_CUBEMAP_SIZE * 6) PREFILTER_CUBEMAP_SIZE w1;
          w3 = add_color_texture dt w2;
          w4 = prepare_offscreen_buffer dt w3;
          w5 = set_shader_input dt ''SourceCubemap'' (Tex_input (texture (specular_map self'))) w4;
          w6 = set_shader_input dt ''DestCubemap'' (Tex_input (texture (prefilter_map self'))) w5;
          w7 = set_shader_input dt ''cubeSize'' (Int_input PREFILTER_CUBEMAP_SIZE) w6;
          (dft, w8) = create_target (stage_attr self') (name_attr self' @ ''DiffPrefIBL'') w7;
          self'' = self'\<lparr>diff_filter_target := Some dft\<rparr>;
          w9 = set_size dft (DIFFUSE_CUBEMAP_SIZE * 6) DIFFUSE_CUBEMAP_SIZE w8;
          w10 = add_color_texture dft w9;
          w11 = prepare_offscreen_buffer dft w10;
          w12 = set_shader_input dft ''SourceCubemap'' (Tex_input (texture (prefilter_map self''))) w11;
          w13 = set_shader_input dft ''DestCubemap'' (Tex_input (texture (diffuse_map self''))) w12;
          w14 = set_shader_input dft ''cubeSize'' (Int_input DIFFUSE_CUBEMAP_SIZE) w13
      in (self'', w14))"

definition create :: "cubemap_filter \<Rightarrow> world \<Rightarrow> cubemap_filter \<times> world" where
  "create self w =
     (let (self', w') = make_specular_targets self w
      in make_diffuse_target self' w')"

text \<open>
  Reading an attribute that \<open>create\<close> has not assigned yet raises \<open>AttributeError\<close>. In
  \<open>self._diffuse_target.set_shader(self._stage._load_shader(...))\<close> the attribute is read
  before the argument is evaluated, so the error comes before the shader is loaded; in
  the two loops the shader is loaded first and the attribute is read afterwards.
  \<open>set_shaders\<close> returns the error, if any, with the world as the calls made until then
  have left it.
\<close>

datatype error = AttributeError string

definition set_shaders :: "cubemap_filter \<Rightarrow> world \<Rightarrow> error option \<times> world" where
  "set_shaders self w0 =
     (case diffuse_target self of
        None \<Rightarrow> (Some (AttributeError ''_diffuse_target''), w0)
      | Some dt \<Rightarrow>
          (let (s1, w1) = load_shader (stage_attr self) ''Stages/IBLCubemapDiffuse.frag'' w0;
               w2 = set_shader dt s1 w1
           in case diff_filter_target self of
                None \<Rightarrow> (Some (AttributeError ''_diff_filter_target''), w2)
              | Some dft \<Rightarrow>
                  (let (s2, w3) = load_shader (stage_attr self) ''Stages/IBLCubemapDiffFilter.frag'' w2;
                       w4 = set_shader dft s2 w3;
                       (mip_shader, w5) =
                         load_shader (stage_attr self) ''Stages/IBLCubemapSpecular.frag'' w4
                   in case targets_spec self of
                        None \<Rightarrow> (Some (AttributeError ''_targets_spec''), w5)
                      | Some ts \<Rightarrow>
                          (let w6 = fold (\<lambda>target. set_shader target mip_shader) ts w5;
                               (mip_filter_shader, w7) =
                                 load_shader (stage_attr self)
                                   ''Stages/IBLCubemapSpecularFilter.frag'' w6
                           in case targets_spec_filter self of
                                None \<Rightarrow> (Some (AttributeError ''_targets_spec_filter''), w7)
                              | Some tfs \<Rightarrow>
                                  (None, fold (\<lambda>target. set_shader target mip_filter_shader) tfs w7)))))"

text \<open>
  A caller's use of a constructed filter: any sequence of \<open>create()\<close> and \<open>set_shaders()\<close>
  calls. A call that raises leaves the object and the engine as they were when the error
  was raised, and the caller may go on calling; the state after a sequence that is
  abandoned at the first error is the state after one of its prefixes.
\<close>

datatype method_call = Create | Set_shaders

fun exec_call :: "method_call \<Rightarrow> cubemap_filter \<times> world \<Rightarrow> cubemap_filter \<times> world" where
  "exec_call Create (self, w) = create self w"
| "exec_call Set_shaders (self, w) = (self, snd (set_shaders self w))"

definition exec_calls :: "method_call list \<Rightarrow> cubemap_filter \<times> world \<Rightarrow> cubemap_filter \<times> world" where
  "exec_calls cs = fold exec_call cs"

text \<open>
  The whole life of a filter as the pipeline drives it: construct, \<open>create()\<close>,
  \<open>set_shaders()\<close>.
\<close>

definition run :: "stage_ref \<Rightarrow> string \<Rightarrow> int \<Rightarrow> world \<Rightarrow> error option \<times> cubemap_filter \<times> world" where
  "run parent_stage name sz w0 =
     (let (self, w1) = init parent_stage name sz w0;
          (self', w2) = create self w1;
          (r, w3) = set_shaders self' w2
      in (r, self', w3))"

text \<open>The engine calls made between two states of the world.\<close>

definition issued :: "world \<Rightarrow> world \<Rightarrow> api_call list" where
  "issued w w' = drop (length (calls w)) (calls w')"

fun is_create_cube :: "api_call \<Rightarrow> bool" where
  "is_create_cube (Create_cube n s ct fmt) = True"
| "is_create_cube c = False"

fun is_create_target :: "api_call \<Rightarrow> bool" where
  "is_create_target (Create_target st n) = True"
| "is_create_target c = False"

definition empty_world :: world where
  "empty_world = \<lparr>textures = [], targets = [], shaders = [], calls = []\<rparr>"

text \<open>Concrete filters on which the theorems below are instantiated.\<close>

definition demo_init :: "cubemap_filter \<times> world" where
  "demo_init = init 0 ''Cubemap'' 256 empty_world"

definition demo_created :: "cubemap_filter \<times> world" where
  "demo_created = create (fst demo_init) (snd demo_init)"

definition demo_used :: "cubemap_filter \<times> world" where
  "demo_used = exec_calls [Set_shaders, Create, Set_shaders, Create] demo_init"

definition busy_world :: world where
  "busy_world = empty_world\<lparr>calls := [Load_shader 7 ''Stages/Other.frag'']\<rparr>"

definition demo_odd :: "cubemap_filter \<times> world" where
  "demo_odd = init 0 ''Cubemap'' 100 empty_world"

section \<open>What the operations compute, in closed form\<close>

text \<open>
  The definitions of this section are not part of the program: they describe, as plain
  values, the objects and the calls that the operations above are then proved to produce.
\<close>

definition init_textures :: "string \<Rightarrow> int \<Rightarrow> texture_obj list" where
  "init_textures name sz =
     [\<lparr>tex_name = name @ ''IBLPrefDiff'', cube_size = 32, comp_type = T_float,
       comp_format = F_r11_g11_b10, minfilter = FT_linear, magfilter = FT_linear\<rparr>,
      \<lparr>tex_name = name @ ''IBLDiff'', cube_size = 10, comp_type = T_float,
       comp_format = F_r11_g11_b10, minfilter = FT_linear, magfilter = FT_linear\<rparr>,
      \<lparr>tex_name = name @ ''IBLPrefSpec'', cube_size = sz, comp_type = T_float,
       comp_format = F_r11_g11_b10, minfilter = FT_linear_mipmap_linear, magfilter = FT_default\<rparr>,
      \<lparr>tex_name = name @ ''IBLSpec'', cube_size = sz, comp_type = T_float,
       comp_format = F_r11_g11_b10, minfilter = FT_linear_mipmap_linear, magfilter = FT_linear\<rparr>]"

definition init_calls :: "string \<Rightarrow> int \<Rightarrow> tex_ref \<Rightarrow> api_call list" where
  "init_calls name sz t =
     [Create_cube (name @ ''IBLPrefDiff'') 32 T_float F_r11_g11_b10,
      Create_cube (name @ ''IBLDiff'') 10 T_float F_r11_g11_b10,
      Create_cube (name @ ''IBLPrefSpec'') sz T_float F_r11_g11_b10,
      Create_cube (name @ ''IBLSpec'') sz T_float F_r11_g11_b10,
      Set_minfilter (Suc t) FT_linear,
      Set_magfilter (Suc t) FT_linear,
      Set_minfilter (Suc (Suc (Suc t))) FT_linear,
      Set_magfilter (Suc (Suc (Suc t))) FT_linear,
      Set_minfilter t FT_linear,
      Set_magfilter t FT_linear,
      Set_minfilter (Suc (Suc t)) FT_linear_mipmap_linear,
      Set_minfilter (Suc (Suc (Suc t))) FT_linear_mipmap_linear]"

text \<open>
  One iteration of the specular loop, entered with mip counter \<open>mip\<close>, having halved the
  size to \<open>z\<close>, the specular map being \<open>sp\<close> and the specular-prefilter map \<open>pp\<close>: the two
  targets it leaves behind and the calls it makes, \<open>t\<close> being the reference of the first.
\<close>

definition down_target ::
  "stage_ref \<Rightarrow> string \<Rightarrow> tex_ref \<Rightarrow> tex_ref \<Rightarrow> int \<Rightarrow> int \<Rightarrow> render_target" where
  "down_target st name sp pp mip z =
     \<lparr>target_name = name @ ''SpecIBL-'' @ str z, owner = st,
      target_size = Some (z * 6, z), color_texture = False, offscreen_buffer = True,
      shader_inputs =
        [''SourceTex'' \<mapsto> Tex_input (if mip = 0 then sp else pp),
         ''DestMipmap'' \<mapsto> Image_input pp False True (- 1) (mip + 1) 0,
         ''currentMip'' \<mapsto> Int_input mip],
      shader = None\<rparr>"

definition filter_target ::
  "stage_ref \<Rightarrow> string \<Rightarrow> tex_ref \<Rightarrow> tex_ref \<Rightarrow> int \<Rightarrow> int \<Rightarrow> render_target" where
  "filter_target st name sp pp mip z =
     \<lparr>target_name = name @ ''SpecIBLFilter-'' @ str z, owner = st,
      target_size = Some (z * 6, z), color_texture = False, offscreen_buffer = True,
      shader_inputs =
        [''currentMip'' \<mapsto> Int_input (mip + 1),
         ''SourceTex'' \<mapsto> Tex_input pp,
         ''DestMipmap'' \<mapsto> Image_input sp False True (- 1) (mip + 1) 0],
      shader = None\<rparr>"

definition pair_calls ::
  "stage_ref \<Rightarrow> string \<Rightarrow> tex_ref \<Rightarrow> tex_ref \<Rightarrow> int \<Rightarrow> int \<Rightarrow> target_ref \<Rightarrow> api_call list" where
  "pair_calls st name sp pp mip z t =
     [Create_target st (name @ ''SpecIBL-'' @ str z),
      Set_size t (z * 6) z,
      Prepare_offscreen_buffer t,
      Set_shader_input t ''SourceTex'' (Tex_input (if mip = 0 then sp else pp)),
      Set_shader_input t ''DestMipmap'' (Image_input pp False True (- 1) (mip + 1) 0),
      Set_shader_input t ''currentMip'' (Int_input mip),
      Create_target st (name @ ''SpecIBLFilter-'' @ str z),
      Set_size (Suc t) (z * 6) z,
      Prepare_offscreen_buffer (Suc t),
      Set_shader_input (Suc t) ''currentMip'' (Int_input (mip + 1)),
      Set_shader_input (Suc t) ''SourceTex'' (Tex_input pp),
      Set_shader_input (Suc t) ''DestMipmap'' (Image_input sp False True (- 1) (mip + 1) 0)]"

text \<open>The sizes the loop passes through: the halves of \<open>s\<close> down to the first below 2.\<close>

function mip_sizes :: "int \<Rightarrow> int list" where
  "mip_sizes s = (if s \<ge> 2 then (s div 2) # mip_sizes (s div 2) else [])"
  by pat_completeness auto
termination
  by (relation "measure nat") auto

fun chain_targets ::
  "stage_ref \<Rightarrow> string \<Rightarrow> tex_ref \<Rightarrow> tex_ref \<Rightarrow> int \<Rightarrow> int list \<Rightarrow> render_target list" where
  "chain_targets st name sp pp mip [] = []"
| "chain_targets st name sp pp mip (z # zs) =
     down_target st name sp pp mip z # filter_target st name sp pp mip z #
     chain_targets st name sp pp (mip + 1) zs"

fun chain_calls ::
  "stage_ref \<Rightarrow> string \<Rightarrow> tex_ref \<Rightarrow> tex_ref \<Rightarrow> int \<Rightarrow> target_ref \<Rightarrow> int list \<Rightarrow> api_call list" where
  "chain_calls st name sp pp mip t [] = []"
| "chain_calls st name sp pp mip t (z # zs) =
     pair_calls st name sp pp mip z t @ chain_calls st name sp pp (mip + 1) (Suc (Suc t)) zs"

text \<open>The two targets of \<open>_make_diffuse_target\<close> and its calls, \<open>t\<close> the reference of the first.\<close>

definition integrate_target :: "stage_ref \<Rightarrow> string \<Rightarrow> tex_ref \<Rightarrow> tex_ref \<Rightarrow> render_target" where
  "integrate_target st name sp pf =
     \<lparr>target_name = name @ ''DiffuseIBL'', owner = st,
      target_size = Some (192, 32), color_texture = True, offscreen_buffer = True,
      shader_inputs =
        [''SourceCubemap'' \<mapsto> Tex_input sp,
         ''DestCubemap'' \<mapsto> Tex_input pf,
         ''cubeSize'' \<mapsto> Int_input 32],
      shader = None\<rparr>"

definition denoise_target :: "stage_ref \<Rightarrow> string \<Rightarrow> tex_ref \<Rightarrow> tex_ref \<Rightarrow> render_target" where
  "denoise_target st name pf df =
     \<lparr>target_name = name @ ''DiffPrefIBL'', owner = st,
      target_size = Some (60, 10), color_texture = True, offscreen_buffer = True,
      shader_inputs =
        [''SourceCubemap'' \<mapsto> Tex_input pf,
         ''DestCubemap'' \<mapsto> Tex_input df,
         ''cubeSize'' \<mapsto> Int_input 10],
      shader = None\<rparr>"

definition diffuse_calls ::
  "stage_ref \<Rightarrow> string \<Rightarrow> tex_ref \<Rightarrow> tex_ref \<Rightarrow> tex_ref \<Rightarrow> target_ref \<Rightarrow> api_call list" where
  "diffuse_calls st name sp pf df t =
     [Create_target st (name @ ''DiffuseIBL''),
      Set_size t 192 32,
      Add_color_texture t,
      Prepare_offscreen_buffer t,
      Set_shader_input t ''SourceCubemap'' (Tex_input sp),
      Set_shader_input t ''DestCubemap'' (Tex_input pf),
      Set_shader_input t ''cubeSize'' (Int_input 32),
      Create_target st (name @ ''DiffPrefIBL''),
      Set_size (Suc t) 60 10,
      Add_color_texture (Suc t),
      Prepare_offscreen_buffer (Suc t),
      Set_shader_input (Suc t) ''SourceCubemap'' (Tex_input pf),
      Set_shader_input (Suc t) ''DestCubemap'' (Tex_input df),
      Set_shader_input (Suc t) ''cubeSize'' (Int_input 10)]"

text \<open>The references of the downsample and of the filter targets of a chain of \<open>n\<close> pairs.\<close>

definition down_refs :: "target_ref \<Rightarrow> nat \<Rightarrow> target_ref list" where
  "down_refs b n = map (\<lambda>j. b + 2 * j) [0..<n]"

definition filter_refs :: "target_ref \<Rightarrow> nat \<Rightarrow> target_ref list" where
  "filter_refs b n = map (\<lambda>j. Suc (b + 2 * j)) [0..<n]"


text \<open>
  The targets after \<open>set_shader(s)\<close> has been called on each target of \<open>ts\<close>, the four
  shader files of \<open>set_shaders\<close>, and the calls it makes when every attribute is there.
\<close>

definition with_shader :: "shader_ref \<Rightarrow> target_ref list \<Rightarrow> render_target list \<Rightarrow> render_target list" where
  "with_shader s ts xs = fold (\<lambda>t ys. ys[t := (ys ! t)\<lparr>shader := Some s\<rparr>]) ts xs"

definition shader_paths :: "string list" where
  "shader_paths =
     [''Stages/IBLCubemapDiffuse.frag'', ''Stages/IBLCubemapDiffFilter.frag'',
      ''Stages/IBLCubemapSpecular.frag'', ''Stages/IBLCubemapSpecularFilter.frag'']"

definition shader_calls ::
  "stage_ref \<Rightarrow> shader_ref \<Rightarrow> target_ref \<Rightarrow> target_ref \<Rightarrow> target_ref list \<Rightarrow> target_ref list \<Rightarrow> api_call list" where
  "shader_calls st s d e ts tfs =
     [Load_shader st ''Stages/IBLCubemapDiffuse.frag'', Set_shader d s,
      Load_shader st ''Stages/IBLCubemapDiffFilter.frag'', Set_shader e (Suc s),
      Load_shader st ''Stages/IBLCubemapSpecular.frag''] @
     map (\<lambda>t. Set_shader t (Suc (Suc s))) ts @
     [Load_shader st ''Stages/IBLCubemapSpecularFilter.frag''] @
     map (\<lambda>t. Set_shader t (Suc (Suc (Suc s)))) tfs"

text \<open>
  A whole run (\<open>run\<close>) in an engine that holds \<open>nt\<close> textures, \<open>ng\<close> targets and \<open>ns\<close>
  shaders: the filter object it builds and the calls it makes.
\<close>

definition run_filter :: "stage_ref \<Rightarrow> string \<Rightarrow> int \<Rightarrow> nat \<Rightarrow> nat \<Rightarrow> cubemap_filter" where
  "run_filter st name sz nt ng =
     \<lparr>stage_attr = st, name_attr = name, size_attr = sz,
      prefilter_map = \<lparr>texture = nt\<rparr>,
      diffuse_map = \<lparr>texture = Suc nt\<rparr>,
      spec_pref_map = \<lparr>texture = Suc (Suc nt)\<rparr>,
      specular_map = \<lparr>texture = Suc (Suc (Suc nt))\<rparr>,
      targets_spec = Some (down_refs ng (length (mip_sizes sz))),
      targets_spec_filter = Some (filter_refs ng (length (mip_sizes sz))),
      diffuse_target = Some (ng + 2 * length (mip_sizes sz)),
      diff_filter_target = Some (Suc (ng + 2 * length (mip_sizes sz)))\<rparr>"

definition trace :: "stage_ref \<Rightarrow> string \<Rightarrow> int \<Rightarrow> nat \<Rightarrow> nat \<Rightarrow> nat \<Rightarrow> api_call list" where
  "trace st name sz nt ng ns =
     init_calls name sz nt @
     chain_calls st name (Suc (Suc (Suc nt))) (Suc (Suc nt)) 0 ng (mip_sizes sz) @
     diffuse_calls st name (Suc (Suc (Suc nt))) nt (Suc nt) (ng + 2 * length (mip_sizes sz)) @
     shader_calls st ns (ng + 2 * length (mip_sizes sz)) (Suc (ng + 2 * length (mip_sizes sz)))
       (down_refs ng (length (mip_sizes sz))) (filter_refs ng (length (mip_sizes sz)))"

section \<open>Proof set-up\<close>

declare spec_loop.simps [simp del]
declare mip_sizes.simps [simp del]

lemmas host_defs = log_call_def map_texture_def map_target_def create_cube_def set_minfilter_def
  set_magfilter_def create_target_def set_size_def add_color_texture_def
  prepare_offscreen_buffer_def set_shader_input_def load_shader_def set_shader_def

section \<open>The constructor\<close>

lemma init_closed:
  "init st name sz w =
     (\<lparr>stage_attr = st, name_attr = name, size_attr = sz,
       prefilter_map = \<lparr>texture = length (textures w)\<rparr>,
       diffuse_map = \<lparr>texture = Suc (length (textures w))\<rparr>,
       spec_pref_map = \<lparr>texture = Suc (Suc (length (textures w)))\<rparr>,
       specular_map = \<lparr>texture = Suc (Suc (Suc (length (textures w))))\<rparr>,
       targets_spec = None, targets_spec_filter = None,
       diffuse_target = None, diff_filter_target = None\<rparr>,
      w\<lparr>textures := textures w @ init_textures name sz,
        calls := calls w @ init_calls name sz (length (textures w))\<rparr>)"
  by (simp add: init_def make_maps_def host_defs Let_def nth_append list_update_append
      PREFILTER_CUBEMAP_SIZE_def DIFFUSE_CUBEMAP_SIZE_def init_textures_def init_calls_def)

text \<open>
  Claim C2. The constructor allocates exactly four cube-mapped textures through the image
  factory, all of component type \<open>T_float\<close> and format \<open>F_r11_g11_b10\<close>: the prefilter map
  of size 32 (\<open>PREFILTER_CUBEMAP_SIZE\<close>), the diffuse map of size 10
  (\<open>DIFFUSE_CUBEMAP_SIZE\<close>) whatever the constructor's size, and the specular-prefilter
  and specular maps of the constructor's size. The four are fresh, distinct objects and
  the textures that existed before are left as they were.
\<close>

theorem constructor_allocates_four_cubemaps:
  assumes "init st name sz w = (self, w')"
  shows "textures w' = textures w @ drop (length (textures w)) (textures w')
       \<and> length (textures w') = length (textures w) + 4
       \<and> filter is_create_cube (issued w w') =
           [Create_cube (name @ ''IBLPrefDiff'') PREFILTER_CUBEMAP_SIZE T_float F_r11_g11_b10,
            Create_cube (name @ ''IBLDiff'') DIFFUSE_CUBEMAP_SIZE T_float F_r11_g11_b10,
            Create_cube (name @ ''IBLPrefSpec'') sz T_float F_r11_g11_b10,
            Create_cube (name @ ''IBLSpec'') sz T_float F_r11_g11_b10]
       \<and> PREFILTER_CUBEMAP_SIZE = 32 \<and> DIFFUSE_CUBEMAP_SIZE = 10
       \<and> map texture [prefilter_map self, diffuse_map self, spec_pref_map self, specular_map self]
           = [length (textures w) ..< length (textures w')]
       \<and> map (\<lambda>m. cube_size (textures w' ! texture m))
            [prefilter_map self, diffuse_map self, spec_pref_map self, specular_map self]
           = [32, 10, sz, sz]
       \<and> (\<forall>m \<in> {prefilter_map self, diffuse_map self, spec_pref_map self, specular_map self}.
            comp_type (textures w' ! texture m) = T_float
          \<and> comp_format (textures w' ! texture m) = F_r11_g11_b10)"
  using assms unfolding init_closed
  by (auto simp add: issued_def init_textures_def init_calls_def nth_append
        PREFILTER_CUBEMAP_SIZE_def DIFFUSE_CUBEMAP_SIZE_def upt_rec)

text \<open>
  Claim C6. The specular output is mip-chained and the diffuse output is not: after
  \<open>_make_maps\<close> the min-filter of the specular map and of the specular-prefilter map is
  \<open>FT_linear_mipmap_linear\<close>, while the diffuse map has plain \<open>FT_linear\<close> as min- and as
  mag-filter.
\<close>

theorem make_maps_filter_modes:
  assumes "init st name sz w = (self, w')"
  shows "minfilter (textures w' ! texture (specular_map self)) = FT_linear_mipmap_linear
       \<and> minfilter (textures w' ! texture (spec_pref_map self)) = FT_linear_mipmap_linear
       \<and> minfilter (textures w' ! texture (diffuse_map self)) = FT_linear
       \<and> magfilter (textures w' ! texture (diffuse_map self)) = FT_linear"
  using assms unfolding init_closed
  by (auto simp add: init_textures_def nth_append)

theorem constructor_allocates_four_cubemaps_witness:
  "length (textures (snd (init 0 ''Cubemap'' 256 empty_world))) = 4
   \<and> map (\<lambda>m. cube_size (textures (snd (init 0 ''Cubemap'' 256 empty_world)) ! texture m))
        [prefilter_map (fst (init 0 ''Cubemap'' 256 empty_world)),
         diffuse_map (fst (init 0 ''Cubemap'' 256 empty_world)),
         spec_pref_map (fst (init 0 ''Cubemap'' 256 empty_world)),
         specular_map (fst (init 0 ''Cubemap'' 256 empty_world))] = [32, 10, 256, 256]"
  using constructor_allocates_four_cubemaps
    [of 0 "''Cubemap''" 256 empty_world "fst (init 0 ''Cubemap'' 256 empty_world)"
        "snd (init 0 ''Cubemap'' 256 empty_world)"]
  by (simp add: empty_world_def)

theorem make_maps_filter_modes_witness:
  "minfilter (textures (snd (init 0 ''Cubemap'' 256 empty_world)) !
      texture (specular_map (fst (init 0 ''Cubemap'' 256 empty_world)))) = FT_linear_mipmap_linear
   \<and> minfilter (textures (snd (init 0 ''Cubemap'' 256 empty_world)) !
      texture (diffuse_map (fst (init 0 ''Cubemap'' 256 empty_world)))) = FT_linear"
  using make_maps_filter_modes
    [of 0 "''Cubemap''" 256 empty_world "fst (init 0 ''Cubemap'' 256 empty_world)"
        "snd (init 0 ''Cubemap'' 256 empty_world)"]
  by simp

section \<open>The specular chain and the diffuse targets\<close>

lemma spec_loop_stop: "mipsize < 2 \<Longrightarrow> spec_loop self mip mipsize w = (self, w)"
  by (subst spec_loop.simps) simp

lemma spec_loop_step:
  "mipsize \<ge> 2 \<Longrightarrow>
   spec_loop self mip mipsize w =
   spec_loop
     (self\<lparr>targets_spec := append_attr (length (targets w)) (targets_spec self),
            targets_spec_filter := append_attr (Suc (length (targets w))) (targets_spec_filter self)\<rparr>)
     (mip + 1) (mipsize div 2)
     (w\<lparr>targets := targets w @
          [down_target (stage_attr self) (name_attr self) (texture (specular_map self))
             (texture (spec_pref_map self)) mip (mipsize div 2),
           filter_target (stage_attr self) (name_attr self) (texture (specular_map self))
             (texture (spec_pref_map self)) mip (mipsize div 2)],
        calls := calls w @
          pair_calls (stage_attr self) (name_attr self) (texture (specular_map self))
             (texture (spec_pref_map self)) mip (mipsize div 2) (length (targets w))\<rparr>)"
  by (subst spec_loop.simps)
     (simp add: host_defs Let_def down_target_def filter_target_def pair_calls_def)

lemma mip_sizes_stop: "s < 2 \<Longrightarrow> mip_sizes s = []"
  by (subst mip_sizes.simps) simp

lemma mip_sizes_step: "2 \<le> s \<Longrightarrow> mip_sizes s = (s div 2) # mip_sizes (s div 2)"
  by (subst mip_sizes.simps) simp

lemma down_refs_Suc: "down_refs b (Suc n) = b # down_refs (Suc (Suc b)) n"
  unfolding down_refs_def
  by (simp add: upt_conv_Cons map_Suc_upt [symmetric] del: upt_Suc)

lemma filter_refs_Suc: "filter_refs b (Suc n) = Suc b # filter_refs (Suc (Suc b)) n"
  unfolding filter_refs_def
  by (simp add: upt_conv_Cons map_Suc_upt [symmetric] del: upt_Suc)

lemma refs_0: "down_refs b 0 = []" "filter_refs b 0 = []"
  by (simp_all add: down_refs_def filter_refs_def)

lemma spec_loop_closed:
  "spec_loop self mip s w =
     (self\<lparr>targets_spec :=
             map_option (\<lambda>l. l @ down_refs (length (targets w)) (length (mip_sizes s)))
               (targets_spec self),
           targets_spec_filter :=
             map_option (\<lambda>l. l @ filter_refs (length (targets w)) (length (mip_sizes s)))
               (targets_spec_filter self)\<rparr>,
      w\<lparr>targets := targets w @
           chain_targets (stage_attr self) (name_attr self) (texture (specular_map self))
             (texture (spec_pref_map self)) mip (mip_sizes s),
         calls := calls w @
           chain_calls (stage_attr self) (name_attr self) (texture (specular_map self))
             (texture (spec_pref_map self)) mip (length (targets w)) (mip_sizes s)\<rparr>)"
proof (induction s arbitrary: self mip w rule: mip_sizes.induct)
  case (1 s)
  show ?case
  proof (cases "s \<ge> 2")
    case False
    then show ?thesis
      by (simp add: spec_loop_stop mip_sizes_stop refs_0 option.map_ident)
  next
    case True
    show ?thesis
      apply (subst spec_loop_step [OF True])
      apply (subst "1.IH" [OF True])
      apply (simp only: mip_sizes_step [OF True] length_Cons down_refs_Suc filter_refs_Suc)
      apply (simp add: append_attr_def option.map_comp comp_def)
      done
  qed
qed

lemma make_specular_targets_closed:
  "make_specular_targets self w =
     (self\<lparr>targets_spec := Some (down_refs (length (targets w)) (length (mip_sizes (size_attr self)))),
           targets_spec_filter :=
             Some (filter_refs (length (targets w)) (length (mip_sizes (size_attr self))))\<rparr>,
      w\<lparr>targets := targets w @
           chain_targets (stage_attr self) (name_attr self) (texture (specular_map self))
             (texture (spec_pref_map self)) 0 (mip_sizes (size_attr self)),
         calls := calls w @
           chain_calls (stage_attr self) (name_attr self) (texture (specular_map self))
             (texture (spec_pref_map self)) 0 (length (targets w)) (mip_sizes (size_attr self))\<rparr>)"
  by (simp add: make_specular_targets_def spec_loop_closed)

lemma make_diffuse_target_closed:
  "make_diffuse_target self w =
     (self\<lparr>diffuse_target := Some (length (targets w)),
           diff_filter_target := Some (Suc (length (targets w)))\<rparr>,
      w\<lparr>targets := targets w @
           [integrate_target (stage_attr self) (name_attr self) (texture (specular_map self))
              (texture (prefilter_map self)),
            denoise_target (stage_attr self) (name_attr self) (texture (prefilter_map self))
              (texture (diffuse_map self))],
         calls := calls w @
           diffuse_calls (stage_attr self) (name_attr self) (texture (specular_map self))
             (texture (prefilter_map self)) (texture (diffuse_map self)) (length (targets w))\<rparr>)"
  by (simp add: make_diffuse_target_def host_defs Let_def integrate_target_def denoise_target_def
      diffuse_calls_def PREFILTER_CUBEMAP_SIZE_def DIFFUSE_CUBEMAP_SIZE_def)

lemma length_chain_targets: "length (chain_targets st name sp pp mip zs) = 2 * length zs"
  by (induction zs arbitrary: mip) simp_all

lemma create_closed:
  "create self w =
     (self\<lparr>targets_spec := Some (down_refs (length (targets w)) (length (mip_sizes (size_attr self)))),
           targets_spec_filter :=
             Some (filter_refs (length (targets w)) (length (mip_sizes (size_attr self)))),
           diffuse_target := Some (length (targets w) + 2 * length (mip_sizes (size_attr self))),
           diff_filter_target :=
             Some (Suc (length (targets w) + 2 * length (mip_sizes (size_attr self))))\<rparr>,
      w\<lparr>targets := targets w @
           chain_targets (stage_attr self) (name_attr self) (texture (specular_map self))
             (texture (spec_pref_map self)) 0 (mip_sizes (size_attr self)) @
           [integrate_target (stage_attr self) (name_attr self) (texture (specular_map self))
              (texture (prefilter_map self)),
            denoise_target (stage_attr self) (name_attr self) (texture (prefilter_map self))
              (texture (diffuse_map self))],
         calls := calls w @
           chain_calls (stage_attr self) (name_attr self) (texture (specular_map self))
             (texture (spec_pref_map self)) 0 (length (targets w)) (mip_sizes (size_attr self)) @
           diffuse_calls (stage_attr self) (name_attr self) (texture (specular_map self))
             (texture (prefilter_map self)) (texture (diffuse_map self))
             (length (targets w) + 2 * length (mip_sizes (size_attr self)))\<rparr>)"
  by (simp add: create_def make_specular_targets_closed make_diffuse_target_closed
      length_chain_targets)

lemma mip_sizes_pow2: "mip_sizes (2 ^ k) = map (\<lambda>j. 2 ^ (k - Suc j)) [0..<k]"
proof (induction k)
  case 0
  show ?case by (simp add: mip_sizes_stop)
next
  case (Suc k)
  have "(2::int) \<le> 2 ^ Suc k" by simp
  from mip_sizes_step [OF this] Suc show ?case
    by (simp add: upt_conv_Cons map_Suc_upt [symmetric] del: upt_Suc)
qed

lemma length_mip_sizes_pow2: "length (mip_sizes (2 ^ k)) = k"
  by (simp add: mip_sizes_pow2)

lemma nth_mip_sizes_pow2: "j < k \<Longrightarrow> mip_sizes (2 ^ k) ! j = 2 ^ (k - Suc j)"
  by (simp add: mip_sizes_pow2)

lemma nth_chain_targets_even:
  "j < length zs \<Longrightarrow>
   chain_targets st name sp pp mip zs ! (2 * j) = down_target st name sp pp (mip + int j) (zs ! j)"
proof (induction zs arbitrary: mip j)
  case Nil
  then show ?case by simp
next
  case (Cons z zs)
  show ?case
  proof (cases j)
    case 0
    then show ?thesis by simp
  next
    case (Suc i)
    with Cons.prems have "i < length zs" by simp
    from Cons.IH [OF this, of "mip + 1"] Suc show ?thesis by (simp add: algebra_simps)
  qed
qed

lemma nth_chain_targets_odd:
  "j < length zs \<Longrightarrow>
   chain_targets st name sp pp mip zs ! Suc (2 * j) = filter_target st name sp pp (mip + int j) (zs ! j)"
proof (induction zs arbitrary: mip j)
  case Nil
  then show ?case by simp
next
  case (Cons z zs)
  show ?case
  proof (cases j)
    case 0
    then show ?thesis by simp
  next
    case (Suc i)
    with Cons.prems have "i < length zs" by simp
    from Cons.IH [OF this, of "mip + 1"] Suc show ?thesis by (simp add: algebra_simps)
  qed
qed

lemma length_mip_sizes_log:
  "1 \<le> s \<Longrightarrow> int (length (mip_sizes s)) = \<lfloor>log 2 (real_of_int s)\<rfloor>"
proof (induction s rule: mip_sizes.induct)
  case (1 s)
  show ?case
  proof (cases "2 \<le> s")
    case False
    with "1.prems" have "s = 1" by simp
    then show ?thesis by (simp add: mip_sizes_stop)
  next
    case True
    then have half: "1 \<le> s div 2" by simp
    have ih: "int (length (mip_sizes (s div 2))) = \<lfloor>log 2 (real_of_int (s div 2))\<rfloor>"
      by (rule "1.IH" [OF True half])
    from True have n: "2 \<le> nat s" by simp
    have "real_of_int s = real (nat s)" using True by simp
    moreover have "s div 2 = int (nat s div 2)"
      using True by (simp add: zdiv_int)
    then have "real_of_int (s div 2) = real (nat s div 2)"
      by (metis of_int_of_nat_eq)
    ultimately have "\<lfloor>log 2 (real_of_int s)\<rfloor> = \<lfloor>log 2 (real_of_int (s div 2))\<rfloor> + 1"
      using floor_log2_div2 [OF n] by simp
    with ih show ?thesis by (simp add: mip_sizes_step [OF True])
  qed
qed

lemma set_refs: "set (down_refs b n) \<union> set (filter_refs b n) = {b ..< b + 2 * n}"
  by (induction n) (auto simp add: down_refs_def filter_refs_def)

lemma length_refs: "length (down_refs b n) = n" "length (filter_refs b n) = n"
  by (simp_all add: down_refs_def filter_refs_def)

lemma distinct_refs: "distinct (down_refs b n @ filter_refs b n)"
proof (rule card_distinct)
  have "set (down_refs b n @ filter_refs b n) = {b ..< b + 2 * n}"
    using set_refs [of b n] by simp
  then show "card (set (down_refs b n @ filter_refs b n)) = length (down_refs b n @ filter_refs b n)"
    by (simp add: length_refs)
qed

lemma nth_refs: "m < n \<Longrightarrow> down_refs b n ! m = b + 2 * m" "m < n \<Longrightarrow> filter_refs b n ! m = Suc (b + 2 * m)"
  by (simp_all add: down_refs_def filter_refs_def)

lemma create_fields:
  assumes "create self w = (self', w')"
  shows "targets_spec self' = Some (down_refs (length (targets w)) (length (mip_sizes (size_attr self))))"
    and "targets_spec_filter self' = Some (filter_refs (length (targets w)) (length (mip_sizes (size_attr self))))"
    and "diffuse_target self' = Some (length (targets w) + 2 * length (mip_sizes (size_attr self)))"
    and "diff_filter_target self' = Some (Suc (length (targets w) + 2 * length (mip_sizes (size_attr self))))"
    and "length (targets w') = length (targets w) + 2 * length (mip_sizes (size_attr self)) + 2"
  using assms unfolding create_closed by (auto simp add: length_chain_targets)

lemma create_down_nth:
  assumes "create self w = (self', w')" and "m < length (mip_sizes (size_attr self))"
  shows "targets w' ! (length (targets w) + 2 * m) =
         down_target (stage_attr self) (name_attr self) (texture (specular_map self))
           (texture (spec_pref_map self)) (int m) (mip_sizes (size_attr self) ! m)"
proof -
  let ?ch = "chain_targets (stage_attr self) (name_attr self) (texture (specular_map self))
               (texture (spec_pref_map self)) 0 (mip_sizes (size_attr self))"
  from assms(1) obtain rest where tw: "targets w' = targets w @ (?ch @ rest)"
    unfolding create_closed by auto
  have "2 * m < length ?ch" using assms(2) by (simp add: length_chain_targets)
  then have "targets w' ! (length (targets w) + 2 * m) = ?ch ! (2 * m)"
    unfolding tw by (simp add: nth_append)
  with nth_chain_targets_even [OF assms(2)] show ?thesis by simp
qed

lemma create_filter_nth:
  assumes "create self w = (self', w')" and "m < length (mip_sizes (size_attr self))"
  shows "targets w' ! Suc (length (targets w) + 2 * m) =
         filter_target (stage_attr self) (name_attr self) (texture (specular_map self))
           (texture (spec_pref_map self)) (int m) (mip_sizes (size_attr self) ! m)"
proof -
  let ?ch = "chain_targets (stage_attr self) (name_attr self) (texture (specular_map self))
               (texture (spec_pref_map self)) 0 (mip_sizes (size_attr self))"
  from assms(1) obtain rest where tw: "targets w' = targets w @ (?ch @ rest)"
    unfolding create_closed by auto
  have "Suc (2 * m) < length ?ch" using assms(2) by (simp add: length_chain_targets)
  then have "targets w' ! (length (targets w) + Suc (2 * m)) = ?ch ! Suc (2 * m)"
    unfolding tw by (simp add: nth_append)
  with nth_chain_targets_odd [OF assms(2)] show ?thesis by simp
qed

text \<open>
  Claim C1. For a filter of size \<open>2 ^ k\<close> with \<open>k \<ge> 1\<close>, \<open>create()\<close> builds the specular chain
  as exactly \<open>k\<close> pairs of render targets, one downsample and one filter target per mip
  level: \<open>_targets_spec\<close> and \<open>_targets_spec_filter\<close> both have length \<open>k\<close>, the \<open>2 * k\<close>
  targets are distinct and are exactly the first \<open>2 * k\<close> targets that \<open>create()\<close> makes, the
  targets of the \<open>i\<close>-th pair (\<open>i = 1..k\<close>) have render size \<open>(2 ^ (k - i) * 6) x 2 ^ (k - i)\<close>,
  and the last pair is \<open>6 x 1\<close>.
\<close>

theorem specular_chain_pairs:
  assumes "1 \<le> k" and "size_attr self = 2 ^ k" and "create self w = (self', w')"
  shows "\<exists>ts tfs. targets_spec self' = Some ts \<and> targets_spec_filter self' = Some tfs
           \<and> length ts = k \<and> length tfs = k
           \<and> distinct (ts @ tfs)
           \<and> set (ts @ tfs) = {length (targets w) ..< length (targets w) + 2 * k}
           \<and> (\<forall>i \<in> {1..k}.
                 target_size (targets w' ! (ts ! (i - 1))) = Some (2 ^ (k - i) * 6, 2 ^ (k - i))
               \<and> target_size (targets w' ! (tfs ! (i - 1))) = Some (2 ^ (k - i) * 6, 2 ^ (k - i)))
           \<and> target_size (targets w' ! last ts) = Some (6, 1)
           \<and> target_size (targets w' ! last tfs) = Some (6, 1)"
proof -
  let ?b = "length (targets w)"
  let ?ts = "down_refs ?b k" and ?tfs = "filter_refs ?b k"
  have n: "length (mip_sizes (size_attr self)) = k"
    by (simp add: assms(2) length_mip_sizes_pow2)
  have sizes: "target_size (targets w' ! (?ts ! m)) = Some (2 ^ (k - Suc m) * 6, 2 ^ (k - Suc m))
             \<and> target_size (targets w' ! (?tfs ! m)) = Some (2 ^ (k - Suc m) * 6, 2 ^ (k - Suc m))"
    if "m < k" for m
  proof -
    from that n have m: "m < length (mip_sizes (size_attr self))" by simp
    have z: "mip_sizes (size_attr self) ! m = 2 ^ (k - Suc m)"
      using that by (simp add: assms(2) nth_mip_sizes_pow2)
    show ?thesis
      using create_down_nth [OF assms(3) m] create_filter_nth [OF assms(3) m] that
      by (simp add: nth_refs z down_target_def filter_target_def)
  qed
  have all: "\<forall>i \<in> {1..k}.
                 target_size (targets w' ! (?ts ! (i - 1))) = Some (2 ^ (k - i) * 6, 2 ^ (k - i))
               \<and> target_size (targets w' ! (?tfs ! (i - 1))) = Some (2 ^ (k - i) * 6, 2 ^ (k - i))"
  proof
    fix i assume "i \<in> {1..k}"
    then have "i - 1 < k" and "Suc (i - 1) = i" by auto
    with sizes [of "i - 1"] show "target_size (targets w' ! (?ts ! (i - 1))) = Some (2 ^ (k - i) * 6, 2 ^ (k - i))
               \<and> target_size (targets w' ! (?tfs ! (i - 1))) = Some (2 ^ (k - i) * 6, 2 ^ (k - i))"
      by simp
  qed
  from assms(1) have ne: "?ts \<noteq> []" "?tfs \<noteq> []"
    using length_refs [of ?b k] by auto
  have lasts: "last ?ts = ?ts ! (k - 1)" "last ?tfs = ?tfs ! (k - 1)"
    using ne by (simp_all add: last_conv_nth length_refs)
  from assms(1) sizes [of "k - 1"]
  have final: "target_size (targets w' ! last ?ts) = Some (6, 1)"
              "target_size (targets w' ! last ?tfs) = Some (6, 1)"
    unfolding lasts by simp_all
  have "set (?ts @ ?tfs) = {?b ..< ?b + 2 * k}"
    using set_refs [of ?b k] by simp
  with all final distinct_refs [of ?b k] create_fields(1,2) [OF assms(3)] n
  show ?thesis by (simp add: length_refs)
qed



lemma refs_bound: "x \<in> set (down_refs b n) \<union> set (filter_refs b n) \<Longrightarrow> x < b + 2 * n"
  unfolding set_refs by simp

theorem specular_chain_pairs_witness:
  "(1::nat) \<le> 8 \<and> size_attr (fst demo_init) = 2 ^ 8 \<and>
   (\<exists>ts tfs. targets_spec (fst demo_created) = Some ts \<and> targets_spec_filter (fst demo_created) = Some tfs
           \<and> length ts = 8 \<and> length tfs = 8
           \<and> distinct (ts @ tfs)
           \<and> set (ts @ tfs) = {length (targets (snd demo_init)) ..< length (targets (snd demo_init)) + 2 * 8}
           \<and> (\<forall>i \<in> {1..8}.
                 target_size (targets (snd demo_created) ! (ts ! (i - 1))) = Some (2 ^ (8 - i) * 6, 2 ^ (8 - i))
               \<and> target_size (targets (snd demo_created) ! (tfs ! (i - 1))) = Some (2 ^ (8 - i) * 6, 2 ^ (8 - i)))
           \<and> target_size (targets (snd demo_created) ! last ts) = Some (6, 1)
           \<and> target_size (targets (snd demo_created) ! last tfs) = Some (6, 1))"
proof -
  have h1: "(1::nat) \<le> 8" by simp
  have h2: "size_attr (fst demo_init) = 2 ^ 8" by (simp add: demo_init_def init_closed)
  have h3: "create (fst demo_init) (snd demo_init) = (fst demo_created, snd demo_created)"
    by (simp add: demo_created_def)
  from specular_chain_pairs [OF h1 h2 h3] h1 h2 show ?thesis by blast
qed

text \<open>
  Claim C3. For a filter of size \<open>2 ^ k\<close> the bindings of the specular chain are fixed by
  the mip counter. The downsample target of mip \<open>m\<close> (\<open>m = 0..k-1\<close>) reads \<open>SourceTex\<close> from the
  specular map when \<open>m = 0\<close> and from the specular-prefilter map otherwise, writes
  \<open>DestMipmap\<close> into the specular-prefilter map at mip level \<open>m + 1\<close> and has
  \<open>currentMip = m\<close>; the filter target paired with it reads \<open>SourceTex\<close> from the
  specular-prefilter map, writes \<open>DestMipmap\<close> into the specular map at mip level \<open>m + 1\<close>
  and has \<open>currentMip = m + 1\<close>. Neither target has any other shader input.
\<close>

theorem specular_chain_bindings:
  assumes "size_attr self = 2 ^ k" and "create self w = (self', w')"
  shows "\<exists>ts tfs. targets_spec self' = Some ts \<and> targets_spec_filter self' = Some tfs
           \<and> length ts = k \<and> length tfs = k
           \<and> (\<forall>m<k.
                 shader_inputs (targets w' ! (ts ! m)) =
                   [''SourceTex'' \<mapsto> Tex_input (if m = 0 then texture (specular_map self)
                                                 else texture (spec_pref_map self)),
                    ''DestMipmap'' \<mapsto> Image_input (texture (spec_pref_map self)) False True (- 1) (int m + 1) 0,
                    ''currentMip'' \<mapsto> Int_input (int m)]
               \<and> shader_inputs (targets w' ! (tfs ! m)) =
                   [''currentMip'' \<mapsto> Int_input (int m + 1),
                    ''SourceTex'' \<mapsto> Tex_input (texture (spec_pref_map self)),
                    ''DestMipmap'' \<mapsto> Image_input (texture (specular_map self)) False True (- 1) (int m + 1) 0])"
proof -
  let ?b = "length (targets w)"
  have n: "length (mip_sizes (size_attr self)) = k"
    by (simp add: assms(1) length_mip_sizes_pow2)
  have "shader_inputs (targets w' ! (down_refs ?b k ! m)) =
          [''SourceTex'' \<mapsto> Tex_input (if m = 0 then texture (specular_map self)
                                        else texture (spec_pref_map self)),
           ''DestMipmap'' \<mapsto> Image_input (texture (spec_pref_map self)) False True (- 1) (int m + 1) 0,
           ''currentMip'' \<mapsto> Int_input (int m)]
      \<and> shader_inputs (targets w' ! (filter_refs ?b k ! m)) =
          [''currentMip'' \<mapsto> Int_input (int m + 1),
           ''SourceTex'' \<mapsto> Tex_input (texture (spec_pref_map self)),
           ''DestMipmap'' \<mapsto> Image_input (texture (specular_map self)) False True (- 1) (int m + 1) 0]"
    if "m < k" for m
  proof -
    from that n have m: "m < length (mip_sizes (size_attr self))" by simp
    show ?thesis
      using create_down_nth [OF assms(2) m] create_filter_nth [OF assms(2) m] that
      by (simp add: nth_refs down_target_def filter_target_def)
  qed
  with create_fields(1,2) [OF assms(2)] n show ?thesis by (simp add: length_refs)
qed

theorem specular_chain_bindings_witness:
  "size_attr (fst demo_init) = 2 ^ 8 \<and>
   (\<exists>ts tfs. targets_spec (fst demo_created) = Some ts \<and> targets_spec_filter (fst demo_created) = Some tfs
           \<and> length ts = 8 \<and> length tfs = 8
           \<and> (\<forall>m<8.
                 shader_inputs (targets (snd demo_created) ! (ts ! m)) =
                   [''SourceTex'' \<mapsto> Tex_input (if m = 0 then texture (specular_map (fst demo_init))
                                                 else texture (spec_pref_map (fst demo_init))),
                    ''DestMipmap'' \<mapsto> Image_input (texture (spec_pref_map (fst demo_init))) False True (- 1) (int m + 1) 0,
                    ''currentMip'' \<mapsto> Int_input (int m)]
               \<and> shader_inputs (targets (snd demo_created) ! (tfs ! m)) =
                   [''currentMip'' \<mapsto> Int_input (int m + 1),
                    ''SourceTex'' \<mapsto> Tex_input (texture (spec_pref_map (fst demo_init))),
                    ''DestMipmap'' \<mapsto> Image_input (texture (specular_map (fst demo_init))) False True (- 1) (int m + 1) 0]))"
proof -
  have h2: "size_attr (fst demo_init) = 2 ^ 8" by (simp add: demo_init_def init_closed)
  have h3: "create (fst demo_init) (snd demo_init) = (fst demo_created, snd demo_created)"
    by (simp add: demo_created_def)
  from specular_chain_bindings [OF h2 h3] h2 show ?thesis by blast
qed

text \<open>
  Claim C4. Besides the specular chain, \<open>create()\<close> builds exactly two render targets:
  the integration target, of render size \<open>32 * 6 x 32\<close>, with \<open>SourceCubemap\<close> the specular
  map, \<open>DestCubemap\<close> the prefilter map and \<open>cubeSize = 32\<close>; and the denoise target, of
  render size \<open>10 * 6 x 10\<close>, with \<open>SourceCubemap\<close> the prefilter map, \<open>DestCubemap\<close> the
  diffuse map and \<open>cubeSize = 10\<close>.
\<close>

theorem diffuse_targets:
  assumes "create self w = (self', w')"
  shows "\<exists>ts tfs d e. targets_spec self' = Some ts \<and> targets_spec_filter self' = Some tfs
           \<and> diffuse_target self' = Some d \<and> diff_filter_target self' = Some e
           \<and> d \<noteq> e \<and> d \<notin> set (ts @ tfs) \<and> e \<notin> set (ts @ tfs)
           \<and> {length (targets w) ..< length (targets w')} = set (ts @ tfs) \<union> {d, e}
           \<and> length (targets w') = length (targets w) + length (ts @ tfs) + 2
           \<and> target_size (targets w' ! d) = Some (32 * 6, 32)
           \<and> shader_inputs (targets w' ! d) =
               [''SourceCubemap'' \<mapsto> Tex_input (texture (specular_map self)),
                ''DestCubemap'' \<mapsto> Tex_input (texture (prefilter_map self)),
                ''cubeSize'' \<mapsto> Int_input 32]
           \<and> target_size (targets w' ! e) = Some (10 * 6, 10)
           \<and> shader_inputs (targets w' ! e) =
               [''SourceCubemap'' \<mapsto> Tex_input (texture (prefilter_map self)),
                ''DestCubemap'' \<mapsto> Tex_input (texture (diffuse_map self)),
                ''cubeSize'' \<mapsto> Int_input 10]"
proof -
  let ?b = "length (targets w)" and ?n = "length (mip_sizes (size_attr self))"
  let ?ch = "chain_targets (stage_attr self) (name_attr self) (texture (specular_map self))
               (texture (spec_pref_map self)) 0 (mip_sizes (size_attr self))"
  let ?d = "integrate_target (stage_attr self) (name_attr self) (texture (specular_map self))
              (texture (prefilter_map self))"
  let ?e = "denoise_target (stage_attr self) (name_attr self) (texture (prefilter_map self))
              (texture (diffuse_map self))"
  from assms have tw: "targets w' = (targets w @ ?ch) @ [?d, ?e]"
    unfolding create_closed by auto
  have len: "length (targets w @ ?ch) = ?b + 2 * ?n" by (simp add: length_chain_targets)
  have d: "targets w' ! (?b + 2 * ?n) = ?d"
    unfolding tw using len by (metis nth_append_length)
  have e: "targets w' ! Suc (?b + 2 * ?n) = ?e"
    unfolding tw using len by (simp add: nth_append)
  have s: "set (down_refs ?b ?n @ filter_refs ?b ?n) = {?b ..< ?b + 2 * ?n}"
    using set_refs [of ?b ?n] by simp
  have r: "{?b ..< ?b + 2 * ?n + 2} = {?b ..< ?b + 2 * ?n} \<union> {?b + 2 * ?n, Suc (?b + 2 * ?n)}"
    by auto
  have nd: "?b + 2 * ?n \<notin> set (down_refs ?b ?n)" "?b + 2 * ?n \<notin> set (filter_refs ?b ?n)"
    and ne: "Suc (?b + 2 * ?n) \<notin> set (down_refs ?b ?n)" "Suc (?b + 2 * ?n) \<notin> set (filter_refs ?b ?n)"
    using refs_bound [of "?b + 2 * ?n" ?b ?n] refs_bound [of "Suc (?b + 2 * ?n)" ?b ?n] by auto
  show ?thesis
    using create_fields [OF assms] d e s r nd ne
    by (simp add: length_refs integrate_target_def denoise_target_def)
qed

theorem diffuse_targets_witness:
  "\<exists>ts tfs d e. targets_spec (fst demo_created) = Some ts \<and> targets_spec_filter (fst demo_created) = Some tfs
           \<and> diffuse_target (fst demo_created) = Some d \<and> diff_filter_target (fst demo_created) = Some e
           \<and> d \<noteq> e \<and> d \<notin> set (ts @ tfs) \<and> e \<notin> set (ts @ tfs)
           \<and> {length (targets (snd demo_init)) ..< length (targets (snd demo_created))} = set (ts @ tfs) \<union> {d, e}
           \<and> length (targets (snd demo_created)) = length (targets (snd demo_init)) + length (ts @ tfs) + 2
           \<and> target_size (targets (snd demo_created) ! d) = Some (32 * 6, 32)
           \<and> shader_inputs (targets (snd demo_created) ! d) =
               [''SourceCubemap'' \<mapsto> Tex_input (texture (specular_map (fst demo_init))),
                ''DestCubemap'' \<mapsto> Tex_input (texture (prefilter_map (fst demo_init))),
                ''cubeSize'' \<mapsto> Int_input 32]
           \<and> target_size (targets (snd demo_created) ! e) = Some (10 * 6, 10)
           \<and> shader_inputs (targets (snd demo_created) ! e) =
               [''SourceCubemap'' \<mapsto> Tex_input (texture (prefilter_map (fst demo_init))),
                ''DestCubemap'' \<mapsto> Tex_input (texture (diffuse_map (fst demo_init))),
                ''cubeSize'' \<mapsto> Int_input 10]"
proof -
  have h: "create (fst demo_init) (snd demo_init) = (fst demo_created, snd demo_created)"
    by (simp add: demo_created_def)
  show ?thesis by (rule diffuse_targets [OF h])
qed

lemma make_specular_targets_fields:
  assumes "make_specular_targets self w = (self', w')"
  shows "targets_spec self' = Some (down_refs (length (targets w)) (length (mip_sizes (size_attr self))))"
    and "targets_spec_filter self' = Some (filter_refs (length (targets w)) (length (mip_sizes (size_attr self))))"
    and "length (targets w') = length (targets w) + 2 * length (mip_sizes (size_attr self))"
  using assms unfolding make_specular_targets_closed by (auto simp add: length_chain_targets)

text \<open>
  Claim C10. The loop of \<open>_make_specular_targets\<close> terminates for every integer size:
  \<open>spec_loop\<close> is a total function, its termination proved above from the fact that
  floor-halving strictly decreases a size of at least 2. Every iteration appends one target
  to \<open>_targets_spec\<close> and one to \<open>_targets_spec_filter\<close> (lemma \<open>spec_loop_step\<close>), so the
  length of these lists counts the iterations: none for a size below 2, and
  \<open>\<lfloor>log 2 size\<rfloor>\<close> for a size of at least 2, power of two or not.
\<close>

theorem specular_loop_iterations:
  assumes "make_specular_targets self w = (self', w')"
  shows "\<exists>ts tfs. targets_spec self' = Some ts \<and> targets_spec_filter self' = Some tfs
           \<and> length tfs = length ts
           \<and> length (targets w') = length (targets w) + 2 * length ts
           \<and> (size_attr self < 2 \<longrightarrow> length ts = 0)
           \<and> (2 \<le> size_attr self \<longrightarrow>
                size_attr self div 2 < size_attr self
              \<and> int (length ts) = \<lfloor>log 2 (real_of_int (size_attr self))\<rfloor>)"
proof -
  have "size_attr self < 2 \<Longrightarrow> length (mip_sizes (size_attr self)) = 0"
    by (simp add: mip_sizes_stop)
  moreover have "2 \<le> size_attr self \<Longrightarrow>
      int (length (mip_sizes (size_attr self))) = \<lfloor>log 2 (real_of_int (size_attr self))\<rfloor>"
    by (rule length_mip_sizes_log) simp
  moreover have "2 \<le> size_attr self \<Longrightarrow> size_attr self div 2 < size_attr self"
    by simp
  ultimately have
    "(size_attr self < 2 \<longrightarrow> length (mip_sizes (size_attr self)) = 0)
   \<and> (2 \<le> size_attr self \<longrightarrow>
        size_attr self div 2 < size_attr self
      \<and> int (length (mip_sizes (size_attr self))) = \<lfloor>log 2 (real_of_int (size_attr self))\<rfloor>)"
    by blast
  then show ?thesis
    by (simp add: make_specular_targets_fields [OF assms] length_refs refs_0)
qed


theorem specular_loop_iterations_witness:
  "(2::int) \<le> size_attr (fst demo_odd) \<and>
   (\<exists>ts tfs. targets_spec (fst (make_specular_targets (fst demo_odd) (snd demo_odd))) = Some ts
          \<and> targets_spec_filter (fst (make_specular_targets (fst demo_odd) (snd demo_odd))) = Some tfs
          \<and> length ts = 6 \<and> length tfs = 6)"
proof -
  have h: "make_specular_targets (fst demo_odd) (snd demo_odd) =
           (fst (make_specular_targets (fst demo_odd) (snd demo_odd)),
            snd (make_specular_targets (fst demo_odd) (snd demo_odd)))" by simp
  have sz: "size_attr (fst demo_odd) = 100" by (simp add: demo_odd_def init_closed)
  have "\<lfloor>log 2 (real_of_int 100)\<rfloor> = 6"
    using floor_log_nat_eq_if [of 2 6 100] by simp
  with specular_loop_iterations [OF h] sz show ?thesis by auto
qed

section \<open>Attaching the shaders\<close>


lemma with_shader_Nil: "with_shader s [] xs = xs"
  by (simp add: with_shader_def)

lemma with_shader_Cons: "with_shader s (t # ts) xs = with_shader s ts (xs[t := (xs ! t)\<lparr>shader := Some s\<rparr>])"
  by (simp add: with_shader_def)

lemma length_with_shader: "length (with_shader s ts xs) = length xs"
  by (induction ts arbitrary: xs) (simp_all add: with_shader_Nil with_shader_Cons)

lemma nth_with_shader:
  "i < length xs \<Longrightarrow>
   with_shader s ts xs ! i = (if i \<in> set ts then (xs ! i)\<lparr>shader := Some s\<rparr> else xs ! i)"
proof (induction ts arbitrary: xs)
  case Nil
  show ?case by (simp add: with_shader_Nil)
next
  case (Cons t ts)
  from Cons.prems have "i < length (xs[t := (xs ! t)\<lparr>shader := Some s\<rparr>])" by simp
  from Cons.IH [OF this] Cons.prems show ?case
    by (cases "i = t") (simp_all add: with_shader_Cons)
qed

lemma fold_set_shader:
  "fold (\<lambda>t. set_shader t s) ts w =
   w\<lparr>targets := with_shader s ts (targets w), calls := calls w @ map (\<lambda>t. Set_shader t s) ts\<rparr>"
proof (induction ts arbitrary: w)
  case Nil
  show ?case by (simp add: with_shader_Nil)
next
  case (Cons t ts)
  have "fold (\<lambda>t. set_shader t s) (t # ts) w = fold (\<lambda>t. set_shader t s) ts (set_shader t s w)"
    by simp
  also have "\<dots> = (set_shader t s w)\<lparr>targets := with_shader s ts (targets (set_shader t s w)),
                 calls := calls (set_shader t s w) @ map (\<lambda>t. Set_shader t s) ts\<rparr>"
    by (rule Cons.IH)
  also have "\<dots> = w\<lparr>targets := with_shader s (t # ts) (targets w),
                 calls := calls w @ map (\<lambda>t. Set_shader t s) (t # ts)\<rparr>"
    by (simp add: with_shader_Cons set_shader_def log_call_def map_target_def)
  finally show ?case .
qed

lemma set_shaders_closed:
  assumes "diffuse_target self = Some d" and "diff_filter_target self = Some e"
    and "targets_spec self = Some ts" and "targets_spec_filter self = Some tfs"
  shows "set_shaders self w =
     (None,
      w\<lparr>shaders := shaders w @ shader_paths,
        targets :=
          with_shader (Suc (Suc (Suc (length (shaders w))))) tfs
            (with_shader (Suc (Suc (length (shaders w)))) ts
               (((targets w)[d := (targets w ! d)\<lparr>shader := Some (length (shaders w))\<rparr>])
                  [e := (((targets w)[d := (targets w ! d)\<lparr>shader := Some (length (shaders w))\<rparr>]) ! e)
                          \<lparr>shader := Some (Suc (length (shaders w)))\<rparr>])),
        calls := calls w @ shader_calls (stage_attr self) (length (shaders w)) d e ts tfs\<rparr>)"
  by (simp add: set_shaders_def assms Let_def load_shader_def set_shader_def log_call_def
      map_target_def fold_set_shader shader_paths_def shader_calls_def)

lemma shader_after_set_shaders:
  assumes "diffuse_target self = Some d" and "diff_filter_target self = Some e"
    and "targets_spec self = Some ts" and "targets_spec_filter self = Some tfs"
    and "set_shaders self w = (r, w')" and "i < length (targets w)"
  shows "shader (targets w' ! i) =
          (if i \<in> set tfs then Some (length (shaders w) + 3)
           else if i \<in> set ts then Some (length (shaders w) + 2)
           else if i = e then Some (length (shaders w) + 1)
           else if i = d then Some (length (shaders w))
           else shader (targets w ! i))"
  using assms(5,6) unfolding set_shaders_closed [OF assms(1-4)]
  by (auto simp add: nth_with_shader length_with_shader nth_list_update)

text \<open>
  Claim C5. After \<open>create()\<close>, \<open>set_shaders()\<close> succeeds and attaches a loaded shader to every
  render target that \<open>create()\<close> made: it loads four shader programs, the integration
  target gets the first and the denoise target the second, every downsample target of the
  specular chain shares the third and every filter target shares the fourth, so none of
  the targets made by \<open>create()\<close> is left without a shader.
\<close>

theorem set_shaders_covers_all_targets:
  assumes "create self w = (self', w')" and "set_shaders self' w' = (r, w'')"
  shows "r = None
       \<and> length (targets w'') = length (targets w')
       \<and> shaders w'' = shaders w' @
           [''Stages/IBLCubemapDiffuse.frag'', ''Stages/IBLCubemapDiffFilter.frag'',
            ''Stages/IBLCubemapSpecular.frag'', ''Stages/IBLCubemapSpecularFilter.frag'']
       \<and> (\<exists>ts tfs d e.
             targets_spec self' = Some ts \<and> targets_spec_filter self' = Some tfs
           \<and> diffuse_target self' = Some d \<and> diff_filter_target self' = Some e
           \<and> shader (targets w'' ! d) = Some (length (shaders w'))
           \<and> shader (targets w'' ! e) = Some (length (shaders w') + 1)
           \<and> (\<forall>t \<in> set ts. shader (targets w'' ! t) = Some (length (shaders w') + 2))
           \<and> (\<forall>t \<in> set tfs. shader (targets w'' ! t) = Some (length (shaders w') + 3)))
       \<and> (\<forall>t \<in> {length (targets w) ..< length (targets w')}. shader (targets w'' ! t) \<noteq> None)"
proof -
  let ?b = "length (targets w)" and ?n = "length (mip_sizes (size_attr self))"
  let ?ts = "down_refs ?b ?n" and ?tfs = "filter_refs ?b ?n"
  let ?d = "?b + 2 * ?n" and ?e = "Suc (?b + 2 * ?n)"
  let ?S = "length (shaders w')"
  note f = create_fields [OF assms(1)]
  note sc = set_shaders_closed [OF f(3) f(4) f(1) f(2), of w']
  note sh = shader_after_set_shaders [OF f(3) f(4) f(1) f(2) assms(2)]
  from assms(2) have r: "r = None" unfolding sc by simp
  from assms(2) have len: "length (targets w'') = length (targets w')"
    unfolding sc by (auto simp add: length_with_shader)
  from assms(2) have paths: "shaders w'' = shaders w' @ shader_paths"
    unfolding sc by auto
  have bound: "t < ?d" if "t \<in> set ?ts \<union> set ?tfs" for t
    using refs_bound [OF that] .
  have dj: "t \<notin> set ?tfs" if "t \<in> set ?ts" for t
    using distinct_refs [of ?b ?n] that by auto
  have d: "shader (targets w'' ! ?d) = Some ?S"
    using sh [of ?d] bound [of ?d] bound [of ?e] f(5) by auto
  have e: "shader (targets w'' ! ?e) = Some (?S + 1)"
    using sh [of ?e] bound [of ?e] f(5) by auto
  have ts: "\<forall>t \<in> set ?ts. shader (targets w'' ! t) = Some (?S + 2)"
  proof
    fix t assume t: "t \<in> set ?ts"
    with bound [of t] f(5) have "t < length (targets w')" by simp
    from sh [OF this] t dj [OF t] show "shader (targets w'' ! t) = Some (?S + 2)" by simp
  qed
  have tfs: "\<forall>t \<in> set ?tfs. shader (targets w'' ! t) = Some (?S + 3)"
  proof
    fix t assume t: "t \<in> set ?tfs"
    with bound [of t] f(5) have "t < length (targets w')" by simp
    from sh [OF this] t show "shader (targets w'' ! t) = Some (?S + 3)" by simp
  qed
  have cover: "\<forall>t \<in> {?b ..< length (targets w')}. shader (targets w'' ! t) \<noteq> None"
  proof
    fix t assume t: "t \<in> {?b ..< length (targets w')}"
    then have lt: "t < length (targets w')" by simp
    from t f(5) have "t \<in> {?b ..< ?d} \<or> t = ?d \<or> t = ?e" by auto
    then have "t \<in> set ?ts \<or> t \<in> set ?tfs \<or> t = ?d \<or> t = ?e"
      unfolding set_refs [symmetric] by auto
    with sh [OF lt] show "shader (targets w'' ! t) \<noteq> None" by auto
  qed
  from r len paths d e ts tfs cover f(1-4) show ?thesis
    by (simp add: shader_paths_def)
qed

theorem set_shaders_covers_all_targets_witness:
  "fst (set_shaders (fst demo_created) (snd demo_created)) = None
   \<and> length (targets (snd demo_init)) = 0
   \<and> length (targets (snd demo_created)) = 18
   \<and> shader (targets (snd (set_shaders (fst demo_created) (snd demo_created))) ! 0) \<noteq> None
   \<and> shader (targets (snd (set_shaders (fst demo_created) (snd demo_created))) ! 17) \<noteq> None"
proof -
  have h1: "create (fst demo_init) (snd demo_init) = (fst demo_created, snd demo_created)"
    by (simp add: demo_created_def)
  have h2: "set_shaders (fst demo_created) (snd demo_created) =
            (fst (set_shaders (fst demo_created) (snd demo_created)),
             snd (set_shaders (fst demo_created) (snd demo_created)))" by simp
  have b: "length (targets (snd demo_init)) = 0"
    by (simp add: demo_init_def init_closed empty_world_def)
  have sz: "size_attr (fst demo_init) = 2 ^ 8"
    by (simp add: demo_init_def init_closed)
  have n: "length (targets (snd demo_created)) = 18"
    using create_fields(5) [OF h1] unfolding sz length_mip_sizes_pow2 b by simp
  from set_shaders_covers_all_targets [OF h1 h2]
  have r: "fst (set_shaders (fst demo_created) (snd demo_created)) = None"
    and all: "\<forall>t \<in> {0 ..< 18}.
        shader (targets (snd (set_shaders (fst demo_created) (snd demo_created))) ! t) \<noteq> None"
    unfolding b n by blast+
  from all have "shader (targets (snd (set_shaders (fst demo_created) (snd demo_created))) ! 0) \<noteq> None"
    and "shader (targets (snd (set_shaders (fst demo_created) (snd demo_created))) ! 17) \<noteq> None"
    by simp_all
  with r b n show ?thesis by blast
qed



section \<open>What a caller can observe\<close>

lemma create_frame:
  assumes "create self w = (self', w')"
  shows "stage_attr self' = stage_attr self" "name_attr self' = name_attr self"
    "size_attr self' = size_attr self" "prefilter_map self' = prefilter_map self"
    "diffuse_map self' = diffuse_map self" "spec_pref_map self' = spec_pref_map self"
    "specular_map self' = specular_map self" "textures w' = textures w"
  using assms unfolding create_closed by auto

lemma set_shaders_textures: "textures (snd (set_shaders self w)) = textures w"
  by (simp add: set_shaders_def Let_def load_shader_def set_shader_def log_call_def
      map_target_def fold_set_shader split: option.splits)

lemma exec_call_frame:
  assumes "exec_call c (self, w) = (self', w')"
  shows "stage_attr self' = stage_attr self \<and> name_attr self' = name_attr self
       \<and> size_attr self' = size_attr self \<and> prefilter_map self' = prefilter_map self
       \<and> diffuse_map self' = diffuse_map self \<and> spec_pref_map self' = spec_pref_map self
       \<and> specular_map self' = specular_map self \<and> textures w' = textures w"
proof (cases c)
  case Create
  with assms have "create self w = (self', w')" by simp
  from create_frame [OF this] show ?thesis by simp
next
  case Set_shaders
  with assms have "self' = self" and "w' = snd (set_shaders self w)" by auto
  then show ?thesis by (simp add: set_shaders_textures)
qed

lemma exec_calls_frame:
  assumes "exec_calls cs (self, w) = (self', w')"
  shows "stage_attr self' = stage_attr self \<and> name_attr self' = name_attr self
       \<and> size_attr self' = size_attr self \<and> prefilter_map self' = prefilter_map self
       \<and> diffuse_map self' = diffuse_map self \<and> spec_pref_map self' = spec_pref_map self
       \<and> specular_map self' = specular_map self \<and> textures w' = textures w"
  using assms
proof (induction cs arbitrary: self w)
  case Nil
  then show ?case by (simp add: exec_calls_def)
next
  case (Cons c cs)
  obtain self1 w1 where step: "exec_call c (self, w) = (self1, w1)" by (cases "exec_call c (self, w)")
  with Cons.prems have "exec_calls cs (self1, w1) = (self', w')" by (simp add: exec_calls_def)
  from Cons.IH [OF this] exec_call_frame [OF step] show ?case by simp
qed

text \<open>
  Claim C8. \<open>get_target_cubemap()\<close> and \<open>get_specular_cubemap()\<close> return the very same
  texture object, the texture of the specular map that the constructor created: the
  texture the caller writes the input cubemap to is the specular output. This holds after
  any sequence of \<open>create()\<close> and \<open>set_shaders()\<close> calls, whether or not some of them raise,
  and the object is still a texture of the engine, untouched by these calls.
\<close>

theorem target_cubemap_is_specular_cubemap:
  assumes "init st name sz w0 = (self, w)" and "exec_calls cs (self, w) = (self', w')"
  shows "get_target_cubemap self' = get_specular_cubemap self'
       \<and> get_specular_cubemap self' = get_specular_cubemap self
       \<and> get_specular_cubemap self' = texture (specular_map self)
       \<and> get_specular_cubemap self' < length (textures w')
       \<and> textures w' ! get_specular_cubemap self' = textures w ! get_specular_cubemap self"
proof -
  from assms(1) have "texture (specular_map self) < length (textures w)"
    unfolding init_closed by (auto simp add: init_textures_def)
  with exec_calls_frame [OF assms(2)] show ?thesis
    by (simp add: get_target_cubemap_def get_specular_cubemap_def)
qed

theorem target_cubemap_is_specular_cubemap_witness:
  "get_target_cubemap (fst demo_used) = get_specular_cubemap (fst demo_used)
   \<and> get_specular_cubemap (fst demo_used) = get_specular_cubemap (fst demo_init)"
proof -
  have h1: "init 0 ''Cubemap'' 256 empty_world = (fst demo_init, snd demo_init)"
    by (simp add: demo_init_def)
  have h2: "exec_calls [Set_shaders, Create, Set_shaders, Create] (fst demo_init, snd demo_init)
            = (fst demo_used, snd demo_used)"
    by (simp add: demo_used_def)
  from target_cubemap_is_specular_cubemap [OF h1 h2] show ?thesis by simp
qed

text \<open>
  Claim C9. \<open>create()\<close> and \<open>set_shaders()\<close> leave the identity of the filter alone: after
  any sequence of these calls \<open>_name\<close> and \<open>_size\<close> are the constructor's arguments, the four
  maps are the images the constructor created, and \<open>get_size()\<close> returns the size passed
  to the constructor.
\<close>

theorem identity_state_unchanged:
  assumes "init st name sz w0 = (self, w)" and "exec_calls cs (self, w) = (self', w')"
  shows "name_attr self' = name \<and> size_attr self' = sz
       \<and> prefilter_map self' = prefilter_map self \<and> diffuse_map self' = diffuse_map self
       \<and> spec_pref_map self' = spec_pref_map self \<and> specular_map self' = specular_map self
       \<and> get_size self' = sz"
proof -
  from assms(1) have "name_attr self = name" and "size_attr self = sz"
    unfolding init_closed by auto
  with exec_calls_frame [OF assms(2)] show ?thesis
    by (simp add: get_size_def)
qed

theorem identity_state_unchanged_witness:
  "get_size (fst demo_used) = 256 \<and> name_attr (fst demo_used) = ''Cubemap''"
proof -
  have h1: "init 0 ''Cubemap'' 256 empty_world = (fst demo_init, snd demo_init)"
    by (simp add: demo_init_def)
  have h2: "exec_calls [Set_shaders, Create, Set_shaders, Create] (fst demo_init, snd demo_init)
            = (fst demo_used, snd demo_used)"
    by (simp add: demo_used_def)
  from identity_state_unchanged [OF h1 h2] show ?thesis by simp
qed

lemma run_closed:
  "run st name sz w =
     (None,
      run_filter st name sz (length (textures w)) (length (targets w)),
      snd (snd (run st name sz w)))"
  and run_calls:
  "calls (snd (snd (run st name sz w))) =
     calls w @ trace st name sz (length (textures w)) (length (targets w)) (length (shaders w))"
proof -
  obtain self w1 where i: "init st name sz w = (self, w1)" by (cases "init st name sz w")
  obtain self' w2 where c: "create self w1 = (self', w2)" by (cases "create self w1")
  note f = create_fields [OF c]
  note sc = set_shaders_closed [OF f(3) f(4) f(1) f(2), of w2]
  from i have self: "self = run_filter st name sz (length (textures w)) (length (targets w))
                        \<lparr>targets_spec := None, targets_spec_filter := None,
                         diffuse_target := None, diff_filter_target := None\<rparr>"
    and w1: "w1 = w\<lparr>textures := textures w @ init_textures name sz,
                    calls := calls w @ init_calls name sz (length (textures w))\<rparr>"
    unfolding init_closed by (auto simp add: run_filter_def)
  from c have self': "self' = run_filter st name sz (length (textures w)) (length (targets w))"
    and w2: "calls w2 = calls w @ init_calls name sz (length (textures w)) @
        chain_calls st name (Suc (Suc (Suc (length (textures w))))) (Suc (Suc (length (textures w))))
          0 (length (targets w)) (mip_sizes sz) @
        diffuse_calls st name (Suc (Suc (Suc (length (textures w))))) (length (textures w))
          (Suc (length (textures w))) (length (targets w) + 2 * length (mip_sizes sz))"
    and s2: "shaders w2 = shaders w" and st: "stage_attr self' = st"
    and sz: "size_attr self = sz" and tw1: "length (targets w1) = length (targets w)"
    unfolding create_closed self w1 by (auto simp add: run_filter_def)
  have r: "run st name sz w = (fst (set_shaders self' w2), self', snd (set_shaders self' w2))"
    by (simp add: run_def i c split: prod.splits)
  show "run st name sz w =
     (None,
      run_filter st name sz (length (textures w)) (length (targets w)),
      snd (snd (run st name sz w)))"
    unfolding r sc by (simp add: self')
  show "calls (snd (snd (run st name sz w))) =
     calls w @ trace st name sz (length (textures w)) (length (targets w)) (length (shaders w))"
    unfolding r sc by (simp add: w2 s2 st sz tw1 trace_def)
qed

text \<open>
  Claim C7. The module is deterministic and reads nothing but its arguments. Two runs of
  the constructor, \<open>create()\<close> and \<open>set_shaders()\<close> with the same stage, name and size, in
  two engines that hand out the same references (they hold as many textures, targets and
  shaders) but may differ in everything else, issue the same sequence of engine calls,
  with the same names, sizes, shader inputs and shader attachments, build the same filter
  object, and both succeed. With the same engine state in both runs this is plain
  determinism.
\<close>

theorem run_deterministic:
  assumes "length (textures w1) = length (textures w2)"
    and "length (targets w1) = length (targets w2)"
    and "length (shaders w1) = length (shaders w2)"
    and "run st name sz w1 = (r1, self1, w1')"
    and "run st name sz w2 = (r2, self2, w2')"
  shows "issued w1 w1' = issued w2 w2' \<and> self1 = self2 \<and> r1 = None \<and> r2 = None"
proof -
  from assms(4) run_closed [of st name sz w1] run_calls [of st name sz w1]
  have a: "r1 = None"
    "self1 = run_filter st name sz (length (textures w1)) (length (targets w1))"
    "calls w1' = calls w1 @ trace st name sz (length (textures w1)) (length (targets w1)) (length (shaders w1))"
    by auto
  from assms(5) run_closed [of st name sz w2] run_calls [of st name sz w2]
  have b: "r2 = None"
    "self2 = run_filter st name sz (length (textures w2)) (length (targets w2))"
    "calls w2' = calls w2 @ trace st name sz (length (textures w2)) (length (targets w2)) (length (shaders w2))"
    by auto
  from a b assms(1-3) show ?thesis by (simp add: issued_def)
qed

theorem run_deterministic_witness:
  "calls empty_world \<noteq> calls busy_world
   \<and> issued empty_world (snd (snd (run 0 ''Cubemap'' 256 empty_world)))
     = issued busy_world (snd (snd (run 0 ''Cubemap'' 256 busy_world)))
   \<and> fst (run 0 ''Cubemap'' 256 empty_world) = None"
proof -
  have h1: "length (textures empty_world) = length (textures busy_world)"
    and h2: "length (targets empty_world) = length (targets busy_world)"
    and h3: "length (shaders empty_world) = length (shaders busy_world)"
    and ne: "calls empty_world \<noteq> calls busy_world"
    by (simp_all add: empty_world_def busy_world_def)
  have h4: "run 0 ''Cubemap'' 256 empty_world =
    (fst (run 0 ''Cubemap'' 256 empty_world), fst (snd (run 0 ''Cubemap'' 256 empty_world)),
     snd (snd (run 0 ''Cubemap'' 256 empty_world)))" by simp
  have h5: "run 0 ''Cubemap'' 256 busy_world =
    (fst (run 0 ''Cubemap'' 256 busy_world), fst (snd (run 0 ''Cubemap'' 256 busy_world)),
     snd (snd (run 0 ''Cubemap'' 256 busy_world)))" by simp
  from run_deterministic [OF h1 h2 h3 h4 h5] ne show ?thesis by simp
qed

end
